theory Spec2Isabelle
  imports Main "HOL-Library.Char_ord" "HOL-Library.List_Lexorder" "HOL-Library.AList"
begin

section \<open>heimdallr_client: the resolution and coordination engine\<close>

text \<open>
  A shallow embedding of \<^verbatim>\<open>heimdallr_client.py\<close>. Python exceptions are values of
  the type \<open>exn\<close>; a function that can raise returns \<open>exn + 'a\<close>. \<^verbatim>\<open>sys.exit(c)\<close>
  raises \<open>SystemExit c\<close>, which is the one exception that \<^verbatim>\<open>except Exception\<close> does
  not catch.
\<close>

subsection \<open>Exceptions and loaded JSON files\<close>

datatype exn =
    SystemExit int
  | FileNotFoundError
  | IsADirectoryError
  | JSONDecodeError
  | IDBError
  | TypeError
  | KeyError
  | NameError
  | CalledProcessError
  | RuntimeError string
  | TimeoutError string

text \<open>
  What \<^verbatim>\<open>open\<close> followed by \<^verbatim>\<open>json.load\<close> finds at a path: no file, a file that does not
  parse, or a value. A parsed value is taken at the shape the code's annotations give it
  (\<^verbatim>\<open>dict[str, Tuple[str, str]]\<close> for the lock table, and so on).
\<close>

datatype 'a jfile = Absent | Malformed | Parsed 'a

subsection \<open>The lock table and \<^verbatim>\<open>check_lock\<close>\<close>

text \<open>
  A row of \<^verbatim>\<open>search.lock\<close>: the stringified process id and the pair (name, hash) it
  claims. Both components can be \<^verbatim>\<open>None\<close>: \<^verbatim>\<open>run\<close> drops the name in compatibility
  mode and takes the hash with \<^verbatim>\<open>query.get("hash", None)\<close>. The table is kept as an
  association list in the order of \<^verbatim>\<open>dict.items()\<close>.
\<close>

type_synonym lock_claim = "string option \<times> string option"
type_synonym lock_table = "(string \<times> lock_claim) list"

text \<open>
  The loop of \<^verbatim>\<open>check_lock\<close> (lines 521-528). \<open>our_pid > pid\<close> is Python's comparison of
  two \<^verbatim>\<open>str\<close> values: lexicographic on code points, a proper prefix being smaller.
\<close>

fun check_rows :: "string \<Rightarrow> string option \<Rightarrow> string option \<Rightarrow> lock_table \<Rightarrow> bool" where
  "check_rows our_pid idb_name file_hash [] = True"
| "check_rows our_pid idb_name file_hash ((pid, (name, hash)) # rest) =
     (if name \<noteq> idb_name \<or> hash \<noteq> file_hash then check_rows our_pid idb_name file_hash rest
      else if pid \<noteq> our_pid \<and> our_pid > pid then False
      else check_rows our_pid idb_name file_hash rest)"

subsection \<open>Files, clock and the other processes\<close>

text \<open>
  A value of an endpoint descriptor, and a descriptor: the JSON object
  \<^verbatim>\<open>{"pid": ..., "address": ..., "file_name": ..., "file_hash": ...}\<close>, any key of which may
  be missing.
\<close>

datatype jval = JNull | JNum int | JStr string

type_synonym descriptor = "(string \<times> jval) list"

text \<open>
  What is at a path of the disk. \<^verbatim>\<open>idblib.IDBFile(fd)\<close> on a regular file either fails or
  gives a database whose \<^verbatim>\<open>get_hash_fast().hex()\<close> is a digest: the content hash, computed
  by the external library.
\<close>

datatype idb_read = NotIDB | Digest string

datatype disk_entry = Missing | Directory | File idb_read

text \<open>
  The state outside the process. The clock counts half seconds, the unit of every
  \<^verbatim>\<open>time.sleep\<close> of the program (\<^verbatim>\<open>time.sleep(0.5)\<close> is one tick, \<^verbatim>\<open>max_wait = 10\<close> is
  20 ticks, the poll limit 32 is 64 ticks); \<open>now\<close> is the number of sleeps slept so far.
  \<open>marker\<close> is the existence of \<^verbatim>\<open>search.lock.tmp\<close>, \<open>lock_file\<close> is \<^verbatim>\<open>search.lock\<close>,
  \<open>registry\<close> is the listing of \<^verbatim>\<open>rpc_endpoints/*\<close> in glob order (\<open>None\<close>: no such
  directory), \<open>history_v2\<close> is \<^verbatim>\<open>history.2.json\<close> (files, hash_table) and \<open>history_v1\<close> is
  \<^verbatim>\<open>history.json\<close>. \<open>glob root pattern\<close> is what \<^verbatim>\<open>Path(root).glob(pattern)\<close> yields, in
  its order: the matching of the pattern is \<^verbatim>\<open>pathlib\<close>'s, not modelled here.
\<close>

record world =
  now :: nat
  marker :: bool
  lock_file :: "lock_table jfile"
  registry :: "(string \<times> descriptor jfile) list option"
  history_v2 :: "(string list \<times> (string \<times> string) list) jfile"
  history_v1 :: "string list jfile"
  disk :: "string \<Rightarrow> disk_entry"
  glob :: "string \<Rightarrow> string \<Rightarrow> string list"

text \<open>
  What the RPC of lines 587-600 does: a response, \<^verbatim>\<open>grpc.RpcError\<close> with the status code
  \<^verbatim>\<open>UNAVAILABLE\<close>, or \<^verbatim>\<open>grpc.RpcError\<close> with any other code.
\<close>

datatype rpc_reply = Response | RpcError_UNAVAILABLE | RpcError_other

text \<open>
  What the process does not control: its pid (as \<^verbatim>\<open>f'{os.getpid()}'\<close> prints it), the
  platform name, what the other processes (other clients, the hosts) do to the files
  during a sleep that starts at tick \<open>t\<close>, whether \<^verbatim>\<open>subprocess.run(..., check=True)\<close>
  on a database path succeeds, and what an RPC to an address at tick \<open>t\<close> does.
\<close>

record env =
  getpid :: string
  platform_system :: string
  others :: "nat \<Rightarrow> world \<Rightarrow> world"
  subprocess_run :: "nat \<Rightarrow> string \<Rightarrow> bool"
  rpc :: "nat \<Rightarrow> string \<Rightarrow> rpc_reply"

definition sleep :: "env \<Rightarrow> world \<Rightarrow> world" where
  "sleep e w = (others e (now w) w)\<lparr>now := now w + 1\<rparr>"

subsection \<open>The marker wait, \<^verbatim>\<open>lock_search\<close> and \<^verbatim>\<open>release_lock\<close>\<close>

text \<open>
  \<^verbatim>\<open>not_exist_wait(tmp_lock_path, max_wait)\<close>, lines 416-435, for a \<^verbatim>\<open>max_wait\<close> that is not
  zero (both callers pass 10): \<open>timeout\<close> is the deadline \<^verbatim>\<open>time.time() + max_wait\<close>, in
  ticks. A reading of the clock that is taken later is strictly later, by less than a
  tick: after \<open>k\<close> sleeps \<^verbatim>\<open>time.time()\<close> is beyond the first reading by more than \<open>k\<close>
  ticks, so \<^verbatim>\<open>time.time() > timeout\<close> holds from the sleep on that brings \<open>now\<close> to the
  deadline, the 20th for \<^verbatim>\<open>max_wait = 10\<close>.
\<close>

function not_exist_wait_loop :: "env \<Rightarrow> nat \<Rightarrow> world \<Rightarrow> (exn + unit) \<times> world" where
  "not_exist_wait_loop e timeout w =
     (if marker w
      then (let w' = sleep e w in
            if now w' \<ge> timeout
            then (Inl (TimeoutError ''Ran out of time waiting for search lock''), w')
            else not_exist_wait_loop e timeout w')
      else (Inr (), w))"
  by pat_completeness auto
termination
  by (relation "measure (\<lambda>(e, timeout, w). timeout - now w)") (auto simp: sleep_def)

declare not_exist_wait_loop.simps [simp del]

definition not_exist_wait :: "env \<Rightarrow> nat \<Rightarrow> world \<Rightarrow> (exn + unit) \<times> world" where
  "not_exist_wait e max_wait w = not_exist_wait_loop e (now w + max_wait) w"

text \<open>
  The handler of both mutations, lines 466-469 and 502-505:
  \<^verbatim>\<open>except Exception: if tmp_lock_path.exists(): os.remove(tmp_lock_path); raise\<close>.
\<close>

definition lock_cleanup :: "exn \<Rightarrow> world \<Rightarrow> (exn + unit) \<times> world" where
  "lock_cleanup x w = (Inl x, if marker w then w\<lparr>marker := False\<rparr> else w)"

text \<open>
  The body of the \<^verbatim>\<open>try\<close> after the wait: touch the marker, load the table (\<^verbatim>\<open>{}\<close> when
  the file is absent), apply the mutation, write the marker file and rename it over the
  table. \<^verbatim>\<open>lock_search\<close> stores under the integer \<^verbatim>\<open>os.getpid()\<close>, which \<^verbatim>\<open>json.dump\<close>
  writes as the same string \<^verbatim>\<open>release_lock\<close> and \<^verbatim>\<open>check_lock\<close> look up. The message of
  the RuntimeError is given without the path it prints.
\<close>

definition mutate_table ::
  "(lock_table \<Rightarrow> lock_table) \<Rightarrow> world \<Rightarrow> (exn + unit) \<times> world" where
  "mutate_table f w =
     (if marker w
      then lock_cleanup (RuntimeError ''Search lock already taken - search already in progress?'') w
      else (let w1 = w\<lparr>marker := True\<rparr> in
            case lock_file w1 of
              Malformed \<Rightarrow> lock_cleanup JSONDecodeError w1
            | Absent \<Rightarrow> (Inr (), w1\<lparr>lock_file := Parsed (f []), marker := False\<rparr>)
            | Parsed locks \<Rightarrow> (Inr (), w1\<lparr>lock_file := Parsed (f locks), marker := False\<rparr>)))"

definition lock_search ::
  "env \<Rightarrow> string option \<Rightarrow> string option \<Rightarrow> world \<Rightarrow> (exn + unit) \<times> world" where
  "lock_search e idb_name file_hash w0 =
     (case not_exist_wait e 20 w0 of
        (Inl x, w) \<Rightarrow> lock_cleanup x w
      | (Inr u, w) \<Rightarrow> mutate_table (AList.update (getpid e) (idb_name, file_hash)) w)"

definition release_lock :: "env \<Rightarrow> world \<Rightarrow> (exn + unit) \<times> world" where
  "release_lock e w0 =
     (case not_exist_wait e 20 w0 of
        (Inl x, w) \<Rightarrow> lock_cleanup x w
      | (Inr u, w) \<Rightarrow> mutate_table (AList.delete (getpid e)) w)"

definition check_lock ::
  "env \<Rightarrow> world \<Rightarrow> string option \<Rightarrow> string option \<Rightarrow> exn + bool" where
  "check_lock e w idb_name file_hash =
     (case lock_file w of
        Absent \<Rightarrow> Inl FileNotFoundError
      | Malformed \<Rightarrow> Inl JSONDecodeError
      | Parsed locks \<Rightarrow>
          if map_of locks (getpid e) = None
          then Inl (RuntimeError ''Search lock not taken before lock check'')
          else Inr (check_rows (getpid e) idb_name file_hash locks))"

text \<open>The lock table as a mapping; a file that is absent reads as the empty table.\<close>

definition table_of :: "world \<Rightarrow> string \<rightharpoonup> lock_claim" where
  "table_of w = (case lock_file w of Parsed locks \<Rightarrow> map_of locks | Absent \<Rightarrow> Map.empty
                 | Malformed \<Rightarrow> Map.empty)"

subsection \<open>The endpoint registry: \<^verbatim>\<open>find_rpc\<close> and \<^verbatim>\<open>poll_rpc\<close>\<close>

text \<open>Python's truth value of a \<^verbatim>\<open>str\<close> or \<^verbatim>\<open>None\<close>, and of a loaded JSON value.\<close>

fun truthy_str :: "string option \<Rightarrow> bool" where
  "truthy_str None = False"
| "truthy_str (Some s) = (s \<noteq> [])"

fun truthy :: "jval \<Rightarrow> bool" where
  "truthy JNull = False"
| "truthy (JNum n) = (n \<noteq> 0)"
| "truthy (JStr s) = (s \<noteq> [])"

text \<open>\<^verbatim>\<open>endpoint.get(key, None)\<close>; a JSON \<^verbatim>\<open>null\<close> loads as \<^verbatim>\<open>None\<close> too.\<close>

definition dict_get :: "descriptor \<Rightarrow> string \<Rightarrow> jval" where
  "dict_get endpoint key = (case map_of endpoint key of None \<Rightarrow> JNull | Some v \<Rightarrow> v)"

text \<open>\<^verbatim>\<open>==\<close> between a loaded value and an argument that is a \<^verbatim>\<open>str\<close> or \<^verbatim>\<open>None\<close>.\<close>

fun py_eq :: "jval \<Rightarrow> string option \<Rightarrow> bool" where
  "py_eq JNull None = True"
| "py_eq (JStr s) (Some t) = (s = t)"
| "py_eq v a = False"

text \<open>The loop of \<^verbatim>\<open>find_rpc\<close>, lines 186-209, over the listing of the directory.\<close>

fun find_rpc_scan ::
  "string option \<Rightarrow> string option \<Rightarrow> (string \<times> descriptor jfile) list
     \<Rightarrow> exn + (jval \<times> string) option" where
  "find_rpc_scan db_name file_hash [] = Inr None"
| "find_rpc_scan db_name file_hash ((endpoint_path, Absent) # rest) = Inl FileNotFoundError"
| "find_rpc_scan db_name file_hash ((endpoint_path, Malformed) # rest) = Inl JSONDecodeError"
| "find_rpc_scan db_name file_hash ((endpoint_path, Parsed endpoint) # rest) =
     (if endpoint = [] then find_rpc_scan db_name file_hash rest
      else if truthy_str db_name \<and> \<not> py_eq (dict_get endpoint ''file_name'') db_name
        then find_rpc_scan db_name file_hash rest
      else if \<not> py_eq (dict_get endpoint ''file_hash'') file_hash
        then find_rpc_scan db_name file_hash rest
      else if \<not> truthy (dict_get endpoint ''address'')
        then find_rpc_scan db_name file_hash rest
      else Inr (Some (dict_get endpoint ''address'', endpoint_path)))"

definition find_rpc ::
  "world \<Rightarrow> string option \<Rightarrow> string option \<Rightarrow> exn + (jval \<times> string) option" where
  "find_rpc w db_name file_hash =
     (case registry w of
        None \<Rightarrow> Inr None
      | Some endpoints \<Rightarrow> find_rpc_scan db_name file_hash endpoints)"

text \<open>
  \<^verbatim>\<open>poll_rpc\<close>, lines 231-242: \<open>timeout\<close> is \<^verbatim>\<open>time.time() + limit\<close>, the back-off is one
  tick. With a later reading of the clock strictly later by less than a tick,
  \<^verbatim>\<open>time.time() + backoff < timeout\<close> holds exactly while \<open>now + 1\<close> is below the deadline.
\<close>

function poll_loop ::
  "env \<Rightarrow> string option \<Rightarrow> string option \<Rightarrow> nat \<Rightarrow> world
     \<Rightarrow> (exn + (jval \<times> string) option) \<times> world" where
  "poll_loop e db_name file_hash timeout w =
     (if now w + 1 < timeout
      then (let w' = sleep e w in
            case find_rpc w' db_name file_hash of
              Inl x \<Rightarrow> (Inl x, w')
            | Inr None \<Rightarrow> poll_loop e db_name file_hash timeout w'
            | Inr (Some result) \<Rightarrow> (Inr (Some result), w'))
      else (Inr None, w))"
  by pat_completeness auto
termination
  by (relation "measure (\<lambda>(e, db_name, file_hash, timeout, w). timeout - now w)")
     (auto simp: sleep_def)

declare poll_loop.simps [simp del]

definition poll_rpc ::
  "env \<Rightarrow> string option \<Rightarrow> string option \<Rightarrow> nat \<Rightarrow> world
     \<Rightarrow> (exn + (jval \<times> string) option) \<times> world" where
  "poll_rpc e db_name file_hash limit w = poll_loop e db_name file_hash (now w + limit) w"

subsection \<open>The artifact locator\<close>

text \<open>
  \<^verbatim>\<open>pathlib\<close>, in its POSIX flavour. A \<^verbatim>\<open>Path\<close> is kept as the string \<^verbatim>\<open>str\<close> gives for it.
  \<^verbatim>\<open>Path(s)\<close> splits \<open>s\<close> at the separator, drops the empty segments and the segments
  \<^verbatim>\<open>.\<close>, and keeps the root: \<^verbatim>\<open>//\<close> for exactly two leading separators, \<^verbatim>\<open>/\<close> for any other
  number of them. The path with no root and no segment prints as \<^verbatim>\<open>.\<close>; \<^verbatim>\<open>.name\<close> is the
  last segment, empty where there is none.
\<close>

fun split_sep :: "string \<Rightarrow> string list" where
  "split_sep [] = [[]]"
| "split_sep (c # cs) =
     (if c = CHR ''/'' then [] # split_sep cs
      else (case split_sep cs of [] \<Rightarrow> [[c]] | seg # segs \<Rightarrow> (c # seg) # segs))"

fun join_sep :: "string list \<Rightarrow> string" where
  "join_sep [] = []"
| "join_sep [x] = x"
| "join_sep (x # y # ys) = x @ CHR ''/'' # join_sep (y # ys)"

definition path_parts :: "string \<Rightarrow> string list" where
  "path_parts s = filter (\<lambda>x. x \<noteq> [] \<and> x \<noteq> ''.'') (split_sep s)"

definition path_root :: "string \<Rightarrow> string" where
  "path_root s =
     (if take 1 s \<noteq> ''/'' then []
      else if take 2 s = ''//'' \<and> take 3 s \<noteq> ''///'' then ''//''
      else ''/'')"

definition Path :: "string \<Rightarrow> string" where
  "Path s =
     (if path_root s = [] \<and> path_parts s = [] then ''.''
      else path_root s @ join_sep (path_parts s))"

definition path_name :: "string \<Rightarrow> string" where
  "path_name p = (case path_parts p of [] \<Rightarrow> [] | x # xs \<Rightarrow> last (x # xs))"

text \<open>\<open>last_chars n s\<close> is the slice \<^verbatim>\<open>s[-n:]\<close>, the whole of a shorter string.\<close>

definition last_chars :: "nat \<Rightarrow> string \<Rightarrow> string" where
  "last_chars n s = drop (length s - n) s"

definition idb_exts :: "string list" where
  "idb_exts = [''idb'', ''i64'']"

definition add_extension :: "string \<Rightarrow> string \<Rightarrow> string" where
  "add_extension path ext = Path (path @ ext)"

text \<open>\<^verbatim>\<open>verify_db\<close>, lines 253-263: opens the file and compares the digest of its content.\<close>

definition verify_db :: "world \<Rightarrow> string \<Rightarrow> string option \<Rightarrow> exn + bool" where
  "verify_db w idb_path file_hash =
     (case disk w idb_path of
        Missing \<Rightarrow> Inl FileNotFoundError
      | Directory \<Rightarrow> Inl IsADirectoryError
      | File NotIDB \<Rightarrow> Inl IDBError
      | File (Digest idb_hash) \<Rightarrow> Inr (Some idb_hash = file_hash))"

definition get_history :: "world \<Rightarrow> exn + string list option" where
  "get_history w =
     (case history_v1 w of
        Absent \<Rightarrow> Inr None
      | Malformed \<Rightarrow> Inl JSONDecodeError
      | Parsed history \<Rightarrow> Inr (Some history))"

definition get_history_v2 ::
  "world \<Rightarrow> exn + (string list \<times> (string \<times> string) list) option" where
  "get_history_v2 w =
     (case history_v2 w of
        Absent \<Rightarrow> Inr None
      | Malformed \<Rightarrow> Inl JSONDecodeError
      | Parsed history \<Rightarrow> Inr (Some history))"

text \<open>The first loop of \<^verbatim>\<open>search_history\<close>, lines 292-298, over \<^verbatim>\<open>hash_table.items()\<close>.\<close>

fun scan_hash_table ::
  "string option \<Rightarrow> string option \<Rightarrow> (string \<times> string) list \<Rightarrow> string option" where
  "scan_hash_table db_name file_hash [] = None"
| "scan_hash_table db_name file_hash ((path, hash) # rest) =
     (if Some hash \<noteq> file_hash then scan_hash_table db_name file_hash rest
      else if truthy_str db_name \<and> db_name \<noteq> Some path
        then scan_hash_table db_name file_hash rest
      else Some path)"

text \<open>
  Lines 302-309: the candidate path of a recorded item; with a name given, an item whose
  name does not end in a database extension gets the last four characters of the name.
\<close>

fun candidate :: "string option \<Rightarrow> string \<Rightarrow> string" where
  "candidate None item = Path item"
| "candidate (Some db_name) item =
     (if db_name \<noteq> [] \<and> last_chars 3 (path_name (Path item)) \<notin> set idb_exts
      then add_extension (Path item) (last_chars 4 db_name)
      else Path item)"

text \<open>The second loop of \<^verbatim>\<open>search_history\<close>, lines 300-324, over \<^verbatim>\<open>files\<close>.\<close>

fun scan_files ::
  "world \<Rightarrow> string option \<Rightarrow> string option \<Rightarrow> string list \<Rightarrow> exn + string option" where
  "scan_files w db_name file_hash [] = Inr None"
| "scan_files w db_name file_hash (item # rest) =
     (let idb_path = candidate db_name item; idb_name = path_name idb_path in
      if disk w idb_path = Missing then scan_files w db_name file_hash rest
      else if truthy_str db_name \<and> Some idb_name \<noteq> db_name
        then scan_files w db_name file_hash rest
      else case verify_db w idb_path file_hash of
             Inl x \<Rightarrow> Inl x
           | Inr False \<Rightarrow> scan_files w db_name file_hash rest
           | Inr True \<Rightarrow> Inr (Some idb_path))"

text \<open>
  What the locator returns: the hash-table loop returns the key, a \<^verbatim>\<open>str\<close>; the other
  loops return a \<^verbatim>\<open>Path\<close>. The two differ in truth value: an empty \<^verbatim>\<open>str\<close> is false, a
  \<^verbatim>\<open>Path\<close> never is.
\<close>

datatype located = Str string | PathObj string

fun truthy_located :: "located \<Rightarrow> bool" where
  "truthy_located (Str s) = (s \<noteq> [])"
| "truthy_located (PathObj p) = True"

fun path_of :: "located \<Rightarrow> string" where
  "path_of (Str s) = s"
| "path_of (PathObj p) = p"

text \<open>
  \<^verbatim>\<open>search_history\<close>, lines 281-327. When \<^verbatim>\<open>get_history_v2\<close> returns \<^verbatim>\<open>None\<close> and the legacy
  list is not empty, line 290 unpacks \<^verbatim>\<open>None\<close>, which raises TypeError.
\<close>

definition search_history ::
  "world \<Rightarrow> string option \<Rightarrow> string option \<Rightarrow> exn + located option" where
  "search_history w db_name file_hash =
     (case get_history_v2 w of
        Inl x \<Rightarrow> Inl x
      | Inr None \<Rightarrow>
          (case get_history w of
             Inl x \<Rightarrow> Inl x
           | Inr None \<Rightarrow> Inr None
           | Inr (Some files) \<Rightarrow> if files = [] then Inr None else Inl TypeError)
      | Inr (Some (files, hash_table)) \<Rightarrow>
          (case scan_hash_table db_name file_hash hash_table of
             Some path \<Rightarrow> Inr (Some (Str path))
           | None \<Rightarrow>
               (case scan_files w db_name file_hash files of
                  Inl x \<Rightarrow> Inl x
                | Inr None \<Rightarrow> Inr None
                | Inr (Some idb_path) \<Rightarrow> Inr (Some (PathObj idb_path)))))"

text \<open>
  The glob of lines 351-354 under a search root: the pattern \<^verbatim>\<open>**/{db_name}\<close> with a
  name, else \<^verbatim>\<open>**/*.i64\<close> chained with \<^verbatim>\<open>**/*.idb\<close>.
\<close>

fun glob_candidates :: "world \<Rightarrow> string option \<Rightarrow> string \<Rightarrow> string list" where
  "glob_candidates w None item = glob w item ''**/*.i64'' @ glob w item ''**/*.idb''"
| "glob_candidates w (Some db_name) item =
     (if db_name \<noteq> [] then glob w item (''**/'' @ db_name)
      else glob w item ''**/*.i64'' @ glob w item ''**/*.idb'')"

fun verify_first :: "world \<Rightarrow> string option \<Rightarrow> string list \<Rightarrow> exn + string option" where
  "verify_first w file_hash [] = Inr None"
| "verify_first w file_hash (potential_idb # rest) =
     (case verify_db w potential_idb file_hash of
        Inl x \<Rightarrow> Inl x
      | Inr False \<Rightarrow> verify_first w file_hash rest
      | Inr True \<Rightarrow> Inr (Some potential_idb))"

fun scan_roots ::
  "world \<Rightarrow> string option \<Rightarrow> string option \<Rightarrow> string list \<Rightarrow> exn + string option" where
  "scan_roots w db_name file_hash [] = Inr None"
| "scan_roots w db_name file_hash (item # rest) =
     (if disk w item = Missing then scan_roots w db_name file_hash rest
      else case verify_first w file_hash (glob_candidates w db_name item) of
             Inl x \<Rightarrow> Inl x
           | Inr None \<Rightarrow> scan_roots w db_name file_hash rest
           | Inr (Some potential_idb) \<Rightarrow> Inr (Some potential_idb))"

text \<open>
  The module global \<^verbatim>\<open>idb_path\<close>: the list of search roots from the settings, until line
  346 rebinds it to a \<^verbatim>\<open>map\<close> object, on which \<^verbatim>\<open>len\<close> (line 340) raises TypeError.
\<close>

datatype idb_path_global = Roots "string list" | MapObject

definition search_idb_path ::
  "world \<Rightarrow> idb_path_global \<Rightarrow> string option \<Rightarrow> string option
     \<Rightarrow> (exn + string option) \<times> idb_path_global" where
  "search_idb_path w g db_name file_hash =
     (case g of
        MapObject \<Rightarrow> (Inl TypeError, g)
      | Roots idb_path \<Rightarrow>
          if idb_path = [] then (Inr None, g)
          else (scan_roots w db_name file_hash (map Path idb_path), MapObject))"

text \<open>\<^verbatim>\<open>search_idb\<close>, lines 375-382; \<^verbatim>\<open>error_message(..., 1)\<close> exits with code 1.\<close>

definition search_idb ::
  "world \<Rightarrow> idb_path_global \<Rightarrow> string option \<Rightarrow> string option
     \<Rightarrow> (exn + located) \<times> idb_path_global" where
  "search_idb w g db_name file_hash =
     (case search_history w db_name file_hash of
        Inl x \<Rightarrow> (Inl x, g)
      | Inr found \<Rightarrow>
          (case (case found of None \<Rightarrow> None
                 | Some path \<Rightarrow> if truthy_located path then Some path else None) of
             Some path \<Rightarrow> (Inr path, g)
           | None \<Rightarrow>
               (case search_idb_path w g db_name file_hash of
                  (Inl x, g') \<Rightarrow> (Inl x, g')
                | (Inr None, g') \<Rightarrow> (Inl (SystemExit 1), g')
                | (Inr (Some path), g') \<Rightarrow> (Inr (PathObj path), g'))))"

subsection \<open>The coordinator: \<^verbatim>\<open>launch_ida\<close>, \<^verbatim>\<open>run\<close> and \<^verbatim>\<open>start\<close>\<close>

text \<open>
  \<^verbatim>\<open>launch_ida\<close>, lines 400-414. \<^verbatim>\<open>search_idb\<close> returns only a true value, so the
  \<^verbatim>\<open>sys.exit(1)\<close> of line 402 is never reached. \<^verbatim>\<open>subprocess.run(..., check=True)\<close> raises
  when the command fails.
\<close>

definition launch_ida ::
  "env \<Rightarrow> world \<Rightarrow> idb_path_global \<Rightarrow> string option \<Rightarrow> string option
     \<Rightarrow> (exn + unit) \<times> idb_path_global" where
  "launch_ida e w g idb_name file_hash =
     (case search_idb w g idb_name file_hash of
        (Inl x, g') \<Rightarrow> (Inl x, g')
      | (Inr path, g') \<Rightarrow>
          if platform_system e = ''Darwin'' \<or> platform_system e = ''Linux''
             \<or> platform_system e = ''Windows''
          then (if subprocess_run e (now w) (path_of path)
                then (Inr (), g') else (Inl CalledProcessError, g'))
          else (Inl (SystemExit (- 3)), g'))"

text \<open>
  The request, after \<^verbatim>\<open>unquote\<close>, \<^verbatim>\<open>urlparse\<close> and \<^verbatim>\<open>parse_qsl\<close> (external): the scheme, the
  netloc, the query string, and the query as the dictionary \<^verbatim>\<open>dict(parse_qsl(...))\<close>.
\<close>

record request =
  scheme :: string
  netloc :: string
  query_string :: string
  query :: "(string \<times> string) list"

text \<open>Lines 554-559: the name and the hash the request asks for.\<close>

definition target :: "request \<Rightarrow> string option \<times> string option" where
  "target rq =
     (let file_hash = map_of (query rq) ''hash''; type = map_of (query rq) ''type'' in
      (if type \<noteq> None \<and> type \<noteq> Some ''ida'' then None else Some (netloc rq), file_hash))"

text \<open>\<^verbatim>\<open>path.unlink()\<close> on the descriptor that \<^verbatim>\<open>find_rpc\<close> has just returned.\<close>

definition unlink :: "string \<Rightarrow> world \<Rightarrow> world" where
  "unlink path w =
     w\<lparr>registry := map_option (filter (\<lambda>entry. fst entry \<noteq> path)) (registry w)\<rparr>"

text \<open>
  What one pass through the body of \<^verbatim>\<open>while not finished\<close> ends in: the loop goes
  round again, \<^verbatim>\<open>finished\<close> is set, or an exception leaves the loop.
\<close>

datatype pass = Again world idb_path_global
  | Finished world idb_path_global
  | Raised exn world idb_path_global

text \<open>
  Lines 583-609, the \<^verbatim>\<open>try\<close> around the RPC. \<^verbatim>\<open>query['offset']\<close> raises KeyError when the
  request has no offset; an address that is not a string cannot be dialled.
\<close>

definition connect ::
  "env \<Rightarrow> request \<Rightarrow> jval \<times> string \<Rightarrow> world \<Rightarrow> idb_path_global \<Rightarrow> pass" where
  "connect e rq result w g =
     (case result of (endpoint, path) \<Rightarrow>
        (case endpoint of
           JStr address \<Rightarrow>
             (case map_of (query rq) ''offset'' of
                None \<Rightarrow> Raised KeyError w g
              | Some offset \<Rightarrow>
                  (case rpc e (now w) address of
                     Response \<Rightarrow> Finished w g
                   | RpcError_UNAVAILABLE \<Rightarrow> Again (unlink path w) g
                   | RpcError_other \<Rightarrow> Raised (SystemExit (- 2)) w g))
         | JNum n \<Rightarrow> Raised TypeError w g
         | JNull \<Rightarrow> Raised TypeError w g))"

text \<open>
  Lines 572-582. The message of line 580 is an f-string that reads \<^verbatim>\<open>idb_name\<close>, a name
  that \<^verbatim>\<open>run\<close> does not define (its variable is \<^verbatim>\<open>db_name\<close>) and the module does not
  either: evaluating the argument raises NameError before \<^verbatim>\<open>error_message(..., -6)\<close> is
  called.
\<close>

definition loop_body ::
  "env \<Rightarrow> request \<Rightarrow> string option \<Rightarrow> string option \<Rightarrow> world \<Rightarrow> idb_path_global \<Rightarrow> pass"
  where
  "loop_body e rq db_name file_hash w g =
     (case find_rpc w db_name file_hash of
        Inl x \<Rightarrow> Raised x w g
      | Inr (Some result) \<Rightarrow> connect e rq result w g
      | Inr None \<Rightarrow>
          (case launch_ida e w g db_name file_hash of
             (Inl x, g') \<Rightarrow> Raised x w g'
           | (Inr u, g') \<Rightarrow>
               (case poll_rpc e db_name file_hash 64 w of
                  (Inl x, w') \<Rightarrow> Raised x w' g'
                | (Inr None, w') \<Rightarrow> Raised NameError w' g'
                | (Inr (Some result), w') \<Rightarrow> connect e rq result w' g')))"

text \<open>
  The loop of lines 570-609. Nothing in it counts the passes, so it is a partial
  function: \<open>None\<close> is the loop that never ends.
\<close>

partial_function (option) run_loop ::
  "env \<Rightarrow> request \<Rightarrow> string option \<Rightarrow> string option \<Rightarrow> world \<Rightarrow> idb_path_global
     \<Rightarrow> ((exn + unit) \<times> world \<times> idb_path_global) option" where
  "run_loop e rq db_name file_hash w g =
     (case loop_body e rq db_name file_hash w g of
        Again w' g' \<Rightarrow> run_loop e rq db_name file_hash w' g'
      | Finished w' g' \<Rightarrow> Some (Inr (), w', g')
      | Raised x w' g' \<Rightarrow> Some (Inl x, w', g'))"

declare run_loop.simps [code]

text \<open>
  Lines 561-609, the part of \<^verbatim>\<open>run\<close> that runs with \<^verbatim>\<open>locked = True\<close>, and then the whole
  of \<^verbatim>\<open>run\<close> with its \<^verbatim>\<open>finally\<close>: \<^verbatim>\<open>release_lock\<close> runs on every way out of the locked
  part, and an exception it raises replaces the one in flight.
\<close>

definition run_locked ::
  "env \<Rightarrow> request \<Rightarrow> string option \<Rightarrow> string option \<Rightarrow> world \<Rightarrow> idb_path_global
     \<Rightarrow> ((exn + unit) \<times> world \<times> idb_path_global) option" where
  "run_locked e rq db_name file_hash w g =
     (case lock_search e db_name file_hash w of
        (Inl x, w1) \<Rightarrow> Some (Inl x, w1, g)
      | (Inr u, w1) \<Rightarrow>
          (case check_lock e w1 db_name file_hash of
             Inl x \<Rightarrow> Some (Inl x, w1, g)
           | Inr False \<Rightarrow>
               Some (Inl (RuntimeError ''Can only have request for single database at a time!''),
                     w1, g)
           | Inr True \<Rightarrow> run_loop e rq db_name file_hash w1 g))"

definition run ::
  "env \<Rightarrow> request \<Rightarrow> world \<Rightarrow> idb_path_global
     \<Rightarrow> ((exn + unit) \<times> world \<times> idb_path_global) option" where
  "run e rq w g =
     (if scheme rq \<noteq> ''ida'' \<and> scheme rq \<noteq> ''disas'' then Some (Inl (SystemExit (- 4)), w, g)
      else if query_string rq = [] then Some (Inl (SystemExit (- 4)), w, g)
      else (case target rq of (db_name, file_hash) \<Rightarrow>
              (case run_locked e rq db_name file_hash w g of
                 None \<Rightarrow> None
               | Some (r, w2, g2) \<Rightarrow>
                   (case release_lock e w2 of
                      (Inl x, w3) \<Rightarrow> Some (Inl x, w3, g2)
                    | (Inr u, w3) \<Rightarrow> Some (r, w3, g2)))))"

text \<open>
  \<^verbatim>\<open>start\<close>, lines 616-626, with the settings already loaded: the exit code of the process
  and the files it leaves. \<^verbatim>\<open>except Exception\<close> turns every exception but SystemExit into
  \<^verbatim>\<open>error_message(..., -1)\<close>; the dialog that \<^verbatim>\<open>error_message\<close> shows before it exits is
  external and left out.
\<close>

definition start :: "env \<Rightarrow> request \<Rightarrow> world \<Rightarrow> idb_path_global \<Rightarrow> (int \<times> world) option" where
  "start e rq w g =
     (case run e rq w g of
        None \<Rightarrow> None
      | Some (Inr u, w', g') \<Rightarrow> Some (0, w')
      | Some (Inl (SystemExit c), w', g') \<Rightarrow> Some (c, w')
      | Some (Inl x, w', g') \<Rightarrow> Some (- 1, w'))"

subsection \<open>Concrete files, requests and surroundings\<close>

text \<open>
  A client with pid 4242 on macOS, beside which no other process touches the files, every
  launch succeeds and every RPC is answered; and the state with no file at all.
\<close>

definition idle :: "nat \<Rightarrow> world \<Rightarrow> world" where
  "idle t w = w"

definition launches :: "nat \<Rightarrow> string \<Rightarrow> bool" where
  "launches t path = True"

definition answers :: "nat \<Rightarrow> string \<Rightarrow> rpc_reply" where
  "answers t address = Response"

definition refuses :: "nat \<Rightarrow> string \<Rightarrow> rpc_reply" where
  "refuses t address = RpcError_UNAVAILABLE"

definition client :: env where
  "client = \<lparr>getpid = ''4242'', platform_system = ''Darwin'', others = idle,
             subprocess_run = launches, rpc = answers\<rparr>"

definition empty_disk :: "string \<Rightarrow> disk_entry" where
  "empty_disk path = Missing"

definition empty_glob :: "string \<Rightarrow> string \<Rightarrow> string list" where
  "empty_glob root pattern = []"

definition nothing :: world where
  "nothing = \<lparr>now = 0, marker = False, lock_file = Absent, registry = None,
              history_v2 = Absent, history_v1 = Absent, disk = empty_disk, glob = empty_glob\<rparr>"

text \<open>The request \<^verbatim>\<open>ida://test.i64?hash=b058&offset=0x401000\<close> and its claim.\<close>

definition goto_request :: request where
  "goto_request = \<lparr>scheme = ''ida'', netloc = ''test.i64'',
                    query_string = ''hash=b058&offset=0x401000'',
                    query = [(''hash'', ''b058''), (''offset'', ''0x401000'')]\<rparr>"

definition test_claim :: lock_claim where
  "test_claim = (Some ''test.i64'', Some ''b058'')"

text \<open>
  A disk that holds the directory \<^verbatim>\<open>/db\<close> and in it the database \<^verbatim>\<open>/db/test.i64\<close>, whose
  content hash is \<^verbatim>\<open>b058\<close>.
\<close>

definition db_disk :: "string \<Rightarrow> disk_entry" where
  "db_disk path = (if path = ''/db/test.i64'' then File (Digest ''b058'')
                   else if path = ''/db'' then Directory else Missing)"

text \<open>
  A lock table with three claims of the same pair, as three clicks on one link leave it.
\<close>

definition triple_click :: world where
  "triple_click = nothing\<lparr>lock_file :=
     Parsed [(''4100'', test_claim), (''4242'', test_claim), (''4300'', test_claim)]\<rparr>"

text \<open>A lock table where another process, 4100, holds a claim and this one does not.\<close>

definition other_claim :: world where
  "other_claim = nothing\<lparr>lock_file := Parsed [(''4100'', test_claim)]\<rparr>"

text \<open>
  The marker file of another updater, and two updaters: one that removes its marker in
  the sleep that starts at tick \<open>k\<close> or in a later one; the other, \<open>idle\<close>, never.
\<close>

definition wedged :: world where
  "wedged = other_claim\<lparr>marker := True\<rparr>"

definition gone_at :: "nat \<Rightarrow> nat \<Rightarrow> world \<Rightarrow> world" where
  "gone_at k t w = (if k \<le> t then w\<lparr>marker := False\<rparr> else w)"

definition beside :: "(nat \<Rightarrow> world \<Rightarrow> world) \<Rightarrow> env" where
  "beside updater = \<lparr>getpid = ''4242'', platform_system = ''Darwin'', others = updater,
                     subprocess_run = launches, rpc = answers\<rparr>"

text \<open>
  A current-shape index whose hash table binds \<^verbatim>\<open>/db/test.i64\<close> to \<^verbatim>\<open>b058\<close>, while the
  file on disk has since changed and hashes to \<^verbatim>\<open>77aa\<close>.
\<close>

definition changed_disk :: "string \<Rightarrow> disk_entry" where
  "changed_disk path = (if path = ''/db/test.i64'' then File (Digest ''77aa'') else Missing)"

definition stale_index :: world where
  "stale_index = nothing\<lparr>history_v2 := Parsed ([], [(''/db/test.i64'', ''b058'')]),
                          disk := changed_disk\<rparr>"

text \<open>The same index over the unchanged file.\<close>

definition fresh_index :: world where
  "fresh_index = nothing\<lparr>history_v2 := Parsed ([], [(''/db/test.i64'', ''b058'')]),
                          disk := db_disk\<rparr>"

text \<open>No current-shape index, and a legacy index that lists the database.\<close>

definition legacy_only :: world where
  "legacy_only = nothing\<lparr>history_v1 := Parsed [''/db/test.i64''], disk := db_disk\<rparr>"

text \<open>
  A current-shape index that lists the database among its files and has an empty hash
  table, and a search root \<^verbatim>\<open>/db\<close> that holds it.
\<close>

definition db_glob :: "string \<Rightarrow> string \<Rightarrow> string list" where
  "db_glob root pattern =
     (if root = ''/db'' \<and> (pattern = ''**/test.i64'' \<or> pattern = ''**/*.i64'')
      then [''/db/test.i64''] else [])"

definition listed :: world where
  "listed = nothing\<lparr>history_v2 := Parsed ([''/db/test.i64''], []), registry := Some [],
                     disk := db_disk, glob := db_glob\<rparr>"

text \<open>The database on disk under the search root, and no index at all.\<close>

definition unindexed :: world where
  "unindexed = nothing\<lparr>disk := db_disk, glob := db_glob\<rparr>"

text \<open>
  A live descriptor for the request, the registry that lists the given files, and a
  registry in which a file that does not parse comes before the live descriptor.
\<close>

definition live_descriptor :: descriptor where
  "live_descriptor = [(''pid'', JNum 4300), (''address'', JStr ''127.0.0.1:63227''),
                      (''file_name'', JStr ''test.i64''), (''file_hash'', JStr ''b058'')]"

definition registry_of :: "(string \<times> descriptor jfile) list \<Rightarrow> world" where
  "registry_of endpoints = nothing\<lparr>registry := Some endpoints\<rparr>"

definition live_entry :: "string \<times> descriptor jfile" where
  "live_entry = (''/rpc/4300'', Parsed live_descriptor)"

definition broken_registry :: world where
  "broken_registry = registry_of [(''/rpc/4299'', Malformed), live_entry]"

text \<open>A descriptor for the request that carries no address.\<close>

definition mute_descriptor :: descriptor where
  "mute_descriptor = [(''pid'', JNum 4299), (''file_name'', JStr ''test.i64''),
                      (''file_hash'', JStr ''b058'')]"

text \<open>
  A host that writes its descriptor while the client sleeps and whose address then
  refuses every connection.
\<close>

definition registers :: "nat \<Rightarrow> world \<Rightarrow> world" where
  "registers t w = w\<lparr>registry := Some [live_entry]\<rparr>"

definition dead_host :: env where
  "dead_host = \<lparr>getpid = ''4242'', platform_system = ''Darwin'', others = registers,
                subprocess_run = launches, rpc = refuses\<rparr>"

text \<open>
  The states the coordinator's loop comes back to beside that host: an empty registry,
  the database listed in the index and present on disk.
\<close>

definition relaunching :: "world \<Rightarrow> bool" where
  "relaunching w =
     (registry w = Some [] \<and> history_v2 w = Parsed ([''/db/test.i64''], [])
      \<and> disk w = db_disk)"

section \<open>The resolution lock\<close>

lemma check_rows_iff:
  "check_rows p n h locks \<longleftrightarrow> (\<forall>q. (q, (n, h)) \<in> set locks \<longrightarrow> q = p \<or> \<not> q < p)"
  by (induction p n h locks rule: check_rows.induct) auto

lemma map_of_delete_absent:
  "map_of locks p = None \<Longrightarrow> map_of (AList.delete p locks) = map_of locks"
  by (simp add: AList.delete_notin_dom map_of_eq_None_iff)

lemma map_of_delete_update:
  "map_of locks p = None \<Longrightarrow> map_of (AList.delete p (AList.update p v locks)) = map_of locks"
  by (simp add: AList.delete_update_same map_of_delete_absent)

lemma wait_free: "\<not> marker w \<Longrightarrow> not_exist_wait e m w = (Inr (), w)"
  by (simp add: not_exist_wait_def not_exist_wait_loop.simps)

text \<open>
  C2, as the code has it. In a lock table where two distinct process ids \<open>p1 < p2\<close> (as
  strings, lexicographically) claim the same (name, hash) pair, and no row claiming that
  pair has an id that sorts below \<open>p1\<close>, \<^verbatim>\<open>check_lock\<close> returns true for \<open>p1\<close> and false
  for \<open>p2\<close>.
\<close>

theorem check_lock_lowest_claim_wins:
  assumes "lock_file w = Parsed locks"
    and "map_of locks p1 = Some (n, h)" and "map_of locks p2 = Some (n, h)"
    and "p1 < p2"
    and "\<forall>q. (q, (n, h)) \<in> set locks \<longrightarrow> \<not> q < p1"
  shows "check_lock (e\<lparr>getpid := p1\<rparr>) w n h = Inr True
       \<and> check_lock (e\<lparr>getpid := p2\<rparr>) w n h = Inr False"
proof -
  have m: "(p1, (n, h)) \<in> set locks" using assms(2) by (rule map_of_SomeD)
  have "check_rows p1 n h locks" using assms(5) by (simp add: check_rows_iff)
  moreover have "\<not> check_rows p2 n h locks"
    using m assms(4) by (auto simp: check_rows_iff)
  ultimately show ?thesis using assms(1,2,3) by (simp add: check_lock_def)
qed

theorem check_lock_lowest_claim_wins_witness:
  "lock_file triple_click
     = Parsed [(''4100'', test_claim), (''4242'', test_claim), (''4300'', test_claim)]
   \<and> map_of [(''4100'', test_claim), (''4242'', test_claim), (''4300'', test_claim)] ''4100''
       = Some (Some ''test.i64'', Some ''b058'')
   \<and> map_of [(''4100'', test_claim), (''4242'', test_claim), (''4300'', test_claim)] ''4300''
       = Some (Some ''test.i64'', Some ''b058'')
   \<and> ''4100'' < ''4300''
   \<and> check_lock (client\<lparr>getpid := ''4100''\<rparr>) triple_click (Some ''test.i64'') (Some ''b058'')
       = Inr True
   \<and> check_lock (client\<lparr>getpid := ''4300''\<rparr>) triple_click (Some ''test.i64'') (Some ''b058'')
       = Inr False"
proof -
  let ?locks = "[(''4100'', test_claim), (''4242'', test_claim), (''4300'', test_claim)]"
  have f: "lock_file triple_click = Parsed ?locks"
    by (simp add: triple_click_def)
  have a: "map_of ?locks ''4100'' = Some (Some ''test.i64'', Some ''b058'')"
    by (simp add: test_claim_def)
  have b: "map_of ?locks ''4300'' = Some (Some ''test.i64'', Some ''b058'')"
    by (simp add: test_claim_def)
  have lt: "''4100'' < ''4300''" by simp
  have low: "\<forall>q. (q, (Some ''test.i64'', Some ''b058'')) \<in> set ?locks \<longrightarrow> \<not> q < ''4100''"
    by (auto simp: test_claim_def)
  show ?thesis
    using f a b lt check_lock_lowest_claim_wins [OF f a b lt low, of client] by simp
qed

text \<open>
  C2, as the claim states it, fails where a third process claims the pair too: of the
  two ids 4242 and 4300, 4242 sorts lower, and \<^verbatim>\<open>check_lock\<close> returns false for it as
  well, since 4100 sorts lower still.
\<close>

theorem check_lock_two_claims_counterexample:
  "lock_file triple_click
     = Parsed [(''4100'', test_claim), (''4242'', test_claim), (''4300'', test_claim)]
   \<and> map_of [(''4100'', test_claim), (''4242'', test_claim), (''4300'', test_claim)] ''4242''
       = Some test_claim
   \<and> map_of [(''4100'', test_claim), (''4242'', test_claim), (''4300'', test_claim)] ''4300''
       = Some test_claim
   \<and> ''4242'' < ''4300''
   \<and> check_lock (client\<lparr>getpid := ''4242''\<rparr>) triple_click (fst test_claim) (snd test_claim)
       = Inr False
   \<and> check_lock (client\<lparr>getpid := ''4300''\<rparr>) triple_click (fst test_claim) (snd test_claim)
       = Inr False"
  by (simp add: triple_click_def nothing_def check_lock_def test_claim_def)

text \<open>
  C6. The claim says that a marker file which outlives the bounded wait makes the
  mutation fail and is left where it is. The mutation does fail, with TimeoutError and
  with the lock table as it was, but the marker is gone afterwards: the wait stands
  inside the \<^verbatim>\<open>try\<close> whose handler removes \<^verbatim>\<open>search.lock.tmp\<close>, so the caller that timed out
  deletes the marker of the other updater, be it one that never finishes or one that
  still holds the marker and would have removed it at tick 25.
\<close>

theorem marker_timeout_deletes_marker:
  "marker wedged
   \<and> fst (lock_search client (Some ''test.i64'') (Some ''b058'') wedged)
       = Inl (TimeoutError ''Ran out of time waiting for search lock'')
   \<and> now (snd (lock_search client (Some ''test.i64'') (Some ''b058'') wedged)) = 20
   \<and> lock_file (snd (lock_search client (Some ''test.i64'') (Some ''b058'') wedged))
       = lock_file wedged
   \<and> marker (snd (not_exist_wait client 20 wedged))
   \<and> \<not> marker (snd (lock_search client (Some ''test.i64'') (Some ''b058'') wedged))
   \<and> fst (release_lock client wedged)
       = Inl (TimeoutError ''Ran out of time waiting for search lock'')
   \<and> lock_file (snd (release_lock client wedged)) = lock_file wedged
   \<and> \<not> marker (snd (release_lock client wedged))
   \<and> fst (lock_search (beside (gone_at 25)) (Some ''test.i64'') (Some ''b058'') wedged)
       = Inl (TimeoutError ''Ran out of time waiting for search lock'')
   \<and> now (snd (lock_search (beside (gone_at 25)) (Some ''test.i64'') (Some ''b058'') wedged))
       = 20
   \<and> marker (snd (not_exist_wait (beside (gone_at 25)) 20 wedged))
   \<and> \<not> marker (snd (lock_search (beside (gone_at 25)) (Some ''test.i64'') (Some ''b058'')
                       wedged))"
  by code_simp

text \<open>
  C9. With no update in progress and a lock table that loads, when the caller's id has
  no row, \<^verbatim>\<open>release_lock\<close> returns without error and leaves the mapping as it was;
  \<^verbatim>\<open>lock_search\<close> adds the caller's row, and \<^verbatim>\<open>release_lock\<close> after it gives the original
  mapping back.
\<close>

theorem release_lock_idempotent:
  assumes "\<not> marker w" and "lock_file w \<noteq> Malformed" and "table_of w (getpid e) = None"
  shows "fst (release_lock e w) = Inr ()
       \<and> table_of (snd (release_lock e w)) = table_of w
       \<and> fst (lock_search e idb_name file_hash w) = Inr ()
       \<and> table_of (snd (lock_search e idb_name file_hash w))
           = (table_of w)(getpid e \<mapsto> (idb_name, file_hash))
       \<and> fst (release_lock e (snd (lock_search e idb_name file_hash w))) = Inr ()
       \<and> table_of (snd (release_lock e (snd (lock_search e idb_name file_hash w)))) = table_of w"
  using assms
  by (cases "lock_file w")
     (simp_all add: release_lock_def lock_search_def wait_free mutate_table_def table_of_def
        map_of_delete_absent map_of_delete_update AList.update_conv')

theorem release_lock_idempotent_witness:
  "\<not> marker other_claim \<and> lock_file other_claim \<noteq> Malformed
   \<and> table_of other_claim (getpid client) = None
   \<and> fst (release_lock client other_claim) = Inr ()
   \<and> table_of (snd (release_lock client other_claim)) = table_of other_claim
   \<and> fst (lock_search client (Some ''test.i64'') (Some ''b058'') other_claim) = Inr ()
   \<and> table_of (snd (lock_search client (Some ''test.i64'') (Some ''b058'') other_claim))
       = (table_of other_claim)(getpid client \<mapsto> (Some ''test.i64'', Some ''b058''))
   \<and> fst (release_lock client
            (snd (lock_search client (Some ''test.i64'') (Some ''b058'') other_claim))) = Inr ()
   \<and> table_of (snd (release_lock client
            (snd (lock_search client (Some ''test.i64'') (Some ''b058'') other_claim))))
       = table_of other_claim"
proof -
  have a: "\<not> marker other_claim" by (simp add: other_claim_def nothing_def)
  have b: "lock_file other_claim \<noteq> Malformed" by (simp add: other_claim_def)
  have c: "table_of other_claim (getpid client) = None"
    by (simp add: table_of_def other_claim_def client_def)
  show ?thesis
    using a b c release_lock_idempotent [OF a b c, of "Some ''test.i64''" "Some ''b058''"]
    by simp
qed

text \<open>
  C10. \<^verbatim>\<open>check_lock\<close> enforces its precondition: when the lock table has no row for the
  caller's id it raises RuntimeError "Search lock not taken before lock check", and it
  returns a boolean only when the table holds a row for the caller.
\<close>

theorem check_lock_precondition:
  "(table_of w (getpid e) = None \<and> lock_file w \<noteq> Absent \<and> lock_file w \<noteq> Malformed \<longrightarrow>
      check_lock e w idb_name file_hash
        = Inl (RuntimeError ''Search lock not taken before lock check''))
   \<and> (check_lock e w idb_name file_hash = Inr b \<longrightarrow>
        (\<exists>row. table_of w (getpid e) = Some row))"
  by (auto simp: check_lock_def table_of_def split: jfile.splits if_splits)

theorem check_lock_precondition_witness:
  "table_of other_claim (getpid client) = None
   \<and> lock_file other_claim \<noteq> Absent \<and> lock_file other_claim \<noteq> Malformed
   \<and> check_lock client other_claim (Some ''test.i64'') (Some ''b058'')
       = Inl (RuntimeError ''Search lock not taken before lock check'')
   \<and> check_lock client triple_click (Some ''test.i64'') (Some ''b058'') = Inr False
   \<and> (\<exists>row. table_of triple_click (getpid client) = Some row)"
proof -
  have a: "table_of other_claim (getpid client) = None
           \<and> lock_file other_claim \<noteq> Absent \<and> lock_file other_claim \<noteq> Malformed"
    by (simp add: table_of_def other_claim_def client_def)
  have b: "check_lock client triple_click (Some ''test.i64'') (Some ''b058'') = Inr False"
    by (simp add: check_lock_def triple_click_def client_def test_claim_def)
  show ?thesis
    using a b
      check_lock_precondition [of other_claim client "Some ''test.i64''" "Some ''b058''" False]
      check_lock_precondition [of triple_click client "Some ''test.i64''" "Some ''b058''" False]
    by simp
qed

section \<open>The artifact locator\<close>

lemma verify_db_True:
  "verify_db w p h = Inr True \<longleftrightarrow> (\<exists>d. disk w p = File (Digest d) \<and> h = Some d)"
  by (auto simp: verify_db_def split: disk_entry.splits idb_read.splits)

lemma scan_hash_table_sound:
  "scan_hash_table n h table = Some p \<Longrightarrow> \<exists>d. (p, d) \<in> set table \<and> h = Some d"
  by (induction n h table rule: scan_hash_table.induct) (auto split: if_splits)

lemma scan_files_sound:
  "scan_files w n h files = Inr (Some p) \<Longrightarrow> verify_db w p h = Inr True"
  by (induction w n h files rule: scan_files.induct)
     (auto simp: Let_def split: if_splits sum.splits bool.splits)

lemma verify_first_sound:
  "verify_first w h ps = Inr (Some p) \<Longrightarrow> verify_db w p h = Inr True"
  by (induction w h ps rule: verify_first.induct) (auto split: sum.splits bool.splits)

lemma scan_roots_sound:
  "scan_roots w n h roots = Inr (Some p) \<Longrightarrow> verify_db w p h = Inr True"
  by (induction w n h roots rule: scan_roots.induct)
     (auto split: if_splits sum.splits option.splits dest: verify_first_sound)

lemma search_history_PathObj:
  "search_history w n h = Inr (Some (PathObj p)) \<Longrightarrow> verify_db w p h = Inr True"
  by (auto simp: search_history_def split: sum.splits option.splits if_splits prod.splits dest: scan_files_sound)

lemma search_history_Str:
  "search_history w n h = Inr (Some (Str p)) \<Longrightarrow>
   \<exists>files table d. history_v2 w = Parsed (files, table) \<and> (p, d) \<in> set table \<and> h = Some d"
  by (auto simp: search_history_def get_history_v2_def split: sum.splits option.splits if_splits prod.splits jfile.splits
           dest: scan_hash_table_sound)

lemma search_idb_path_sound:
  "fst (search_idb_path w g n h) = Inr (Some p) \<Longrightarrow> verify_db w p h = Inr True"
  by (auto simp: search_idb_path_def split: idb_path_global.splits if_splits dest: scan_roots_sound)

text \<open>
  C1, as the code has it. A path that \<^verbatim>\<open>search_history\<close> returns from its files loop, or
  that \<^verbatim>\<open>search_idb_path\<close> returns from a search root, is a file whose content hash,
  computed by \<^verbatim>\<open>verify_db\<close>, is the requested hash. A path returned from the hash-table
  loop is a key of the table whose recorded hash is the requested hash; its content is
  not read. \<^verbatim>\<open>search_idb\<close> returns one or the other.
\<close>

theorem locator_verifies_disk_paths:
  "(search_history w n h = Inr (Some (PathObj p)) \<longrightarrow>
      (\<exists>d. disk w p = File (Digest d) \<and> h = Some d))
   \<and> (search_history w n h = Inr (Some (Str p)) \<longrightarrow>
      (\<exists>files table d. history_v2 w = Parsed (files, table) \<and> (p, d) \<in> set table \<and> h = Some d))
   \<and> (fst (search_idb_path w g n h) = Inr (Some p) \<longrightarrow>
      (\<exists>d. disk w p = File (Digest d) \<and> h = Some d))
   \<and> (fst (search_idb w g n h) = Inr (PathObj p) \<longrightarrow>
      (\<exists>d. disk w p = File (Digest d) \<and> h = Some d))
   \<and> (fst (search_idb w g n h) = Inr (Str p) \<longrightarrow>
      (\<exists>files table d. history_v2 w = Parsed (files, table) \<and> (p, d) \<in> set table \<and> h = Some d))"
proof (intro conjI impI)
  assume "search_history w n h = Inr (Some (PathObj p))"
  then show "\<exists>d. disk w p = File (Digest d) \<and> h = Some d"
    using search_history_PathObj verify_db_True by blast
next
  assume "search_history w n h = Inr (Some (Str p))"
  then show "\<exists>files table d. history_v2 w = Parsed (files, table) \<and> (p, d) \<in> set table \<and> h = Some d"
    by (rule search_history_Str)
next
  assume "fst (search_idb_path w g n h) = Inr (Some p)"
  then show "\<exists>d. disk w p = File (Digest d) \<and> h = Some d"
    using search_idb_path_sound verify_db_True by blast
next
  assume a: "fst (search_idb w g n h) = Inr (PathObj p)"
  show "\<exists>d. disk w p = File (Digest d) \<and> h = Some d"
  proof (cases "search_history w n h = Inr (Some (PathObj p))")
    case True
    then show ?thesis using search_history_PathObj verify_db_True by blast
  next
    case False
    with a have "fst (search_idb_path w g n h) = Inr (Some p)"
      by (auto simp: search_idb_def split: sum.splits option.splits if_splits prod.splits)
    then show ?thesis using search_idb_path_sound verify_db_True by blast
  qed
next
  assume a: "fst (search_idb w g n h) = Inr (Str p)"
  then have "search_history w n h = Inr (Some (Str p))"
    by (auto simp: search_idb_def split: sum.splits option.splits if_splits prod.splits)
  then show "\<exists>files table d. history_v2 w = Parsed (files, table) \<and> (p, d) \<in> set table \<and> h = Some d"
    by (rule search_history_Str)
qed

theorem locator_verifies_disk_paths_witness:
  "search_history listed (Some ''test.i64'') (Some ''b058'') = Inr (Some (PathObj ''/db/test.i64''))
   \<and> (\<exists>d. disk listed ''/db/test.i64'' = File (Digest d) \<and> Some ''b058'' = Some d)
   \<and> search_history fresh_index None (Some ''b058'') = Inr (Some (Str ''/db/test.i64''))
   \<and> (\<exists>files table d. history_v2 fresh_index = Parsed (files, table)
         \<and> (''/db/test.i64'', d) \<in> set table \<and> Some ''b058'' = Some d)
   \<and> fst (search_idb_path unindexed (Roots [''/db'']) (Some ''test.i64'') (Some ''b058''))
       = Inr (Some ''/db/test.i64'')
   \<and> fst (search_idb unindexed (Roots [''/db'']) (Some ''test.i64'') (Some ''b058''))
       = Inr (PathObj ''/db/test.i64'')
   \<and> (\<exists>d. disk unindexed ''/db/test.i64'' = File (Digest d) \<and> Some ''b058'' = Some d)
   \<and> fst (search_idb fresh_index (Roots []) None (Some ''b058'')) = Inr (Str ''/db/test.i64'')"
proof -
  have a: "search_history listed (Some ''test.i64'') (Some ''b058'') = Inr (Some (PathObj ''/db/test.i64''))"
    by code_simp
  have b: "search_history fresh_index None (Some ''b058'') = Inr (Some (Str ''/db/test.i64''))"
    by code_simp
  have c: "fst (search_idb_path unindexed (Roots [''/db'']) (Some ''test.i64'') (Some ''b058''))
       = Inr (Some ''/db/test.i64'')"
    by code_simp
  have d: "fst (search_idb unindexed (Roots [''/db'']) (Some ''test.i64'') (Some ''b058''))
       = Inr (PathObj ''/db/test.i64'')"
    by code_simp
  have e: "fst (search_idb fresh_index (Roots []) None (Some ''b058'')) = Inr (Str ''/db/test.i64'')"
    by code_simp
  show ?thesis
    using a b c d e
      locator_verifies_disk_paths [of listed "Some ''test.i64''" "Some ''b058''" "''/db/test.i64''" "Roots []"]
      locator_verifies_disk_paths [of fresh_index None "Some ''b058''" "''/db/test.i64''" "Roots []"]
      locator_verifies_disk_paths [of unindexed "Some ''test.i64''" "Some ''b058''" "''/db/test.i64''" "Roots [''/db'']"]
    by simp
qed

text \<open>
  C1, as the claim states it, fails on an index that is older than the file: the hash
  table binds the path to the requested hash, the hash-table loop returns the path, and
  the content hash of the file at that path is another one.
\<close>

theorem locator_counterexample:
  "search_history stale_index None (Some ''b058'') = Inr (Some (Str ''/db/test.i64''))
   \<and> fst (search_idb stale_index (Roots []) None (Some ''b058'')) = Inr (Str ''/db/test.i64'')
   \<and> disk stale_index ''/db/test.i64'' = File (Digest ''77aa'')
   \<and> verify_db stale_index ''/db/test.i64'' (Some ''b058'') = Inr False"
  by (simp add: search_history_def get_history_v2_def search_idb_def stale_index_def nothing_def
       changed_disk_def verify_db_def)

text \<open>
  C3. The claim holds of no run of the code that reaches the legacy list. With
  \<^verbatim>\<open>history.2.json\<close> absent and a legacy index that lists the database, whose content
  hash is the requested one (the files loop over that list finds it), \<^verbatim>\<open>search_history\<close>
  raises TypeError: line 290 unpacks the \<^verbatim>\<open>None\<close> that \<^verbatim>\<open>get_history_v2\<close> returned.
\<close>

theorem legacy_fallback_raises:
  "history_v2 legacy_only = Absent
   \<and> history_v1 legacy_only = Parsed [''/db/test.i64'']
   \<and> scan_files legacy_only (Some ''test.i64'') (Some ''b058'') [''/db/test.i64'']
       = Inr (Some ''/db/test.i64'')
   \<and> search_history legacy_only (Some ''test.i64'') (Some ''b058'') = Inl TypeError"
  by code_simp

text \<open>
  C7. The claim compares the name with the last segment of the path; line 296 compares
  it with the whole key. The table binds \<^verbatim>\<open>/db/test.i64\<close>, whose last segment is
  \<^verbatim>\<open>test.i64\<close>, to the requested hash, and with the name \<^verbatim>\<open>test.i64\<close> the hash-table loop
  returns nothing; it returns the path only for a name equal to the whole path.
\<close>

theorem hash_table_compares_whole_path:
  "history_v2 fresh_index = Parsed ([], [(''/db/test.i64'', ''b058'')])
   \<and> path_name ''/db/test.i64'' = ''test.i64''
   \<and> scan_hash_table (Some ''test.i64'') (Some ''b058'') [(''/db/test.i64'', ''b058'')] = None
   \<and> search_history fresh_index (Some ''test.i64'') (Some ''b058'') = Inr None
   \<and> scan_hash_table (Some ''/db/test.i64'') (Some ''b058'') [(''/db/test.i64'', ''b058'')]
       = Some ''/db/test.i64''"
  by code_simp

section \<open>The endpoint registry\<close>

lemma find_rpc_scan_append:
  "find_rpc_scan n h (pre @ rest) =
     (case find_rpc_scan n h pre of Inr None \<Rightarrow> find_rpc_scan n h rest | r \<Rightarrow> r)"
  by (induction n h pre rule: find_rpc_scan.induct) (auto split: sum.splits option.splits)

text \<open>
  C4, as the code has it. A descriptor that loads as the empty object, or whose address
  is missing or empty, is skipped wherever it stands in the listing: the scan gives what
  it gives without that file. A descriptor that cannot be opened or does not parse,
  reached with no match before it, makes \<^verbatim>\<open>find_rpc\<close> raise.
\<close>

theorem find_rpc_skips_blank_descriptors:
  assumes "registry w = Some (pre @ (path, f) # rest)"
  shows "(f = Parsed [] \<longrightarrow>
            find_rpc w n h = find_rpc (w\<lparr>registry := Some (pre @ rest)\<rparr>) n h)
       \<and> (f = Parsed d \<and> \<not> truthy (dict_get d ''address'') \<longrightarrow>
            find_rpc w n h = find_rpc (w\<lparr>registry := Some (pre @ rest)\<rparr>) n h)
       \<and> (f = Malformed \<and> find_rpc (w\<lparr>registry := Some pre\<rparr>) n h = Inr None \<longrightarrow>
            find_rpc w n h = Inl JSONDecodeError)
       \<and> (f = Absent \<and> find_rpc (w\<lparr>registry := Some pre\<rparr>) n h = Inr None \<longrightarrow>
            find_rpc w n h = Inl FileNotFoundError)"
  using assms
  by (auto simp: find_rpc_def find_rpc_scan_append split: sum.splits option.splits)

theorem find_rpc_skips_blank_descriptors_witness:
  "find_rpc (registry_of [(''/rpc/4299'', Parsed []), live_entry]) (Some ''test.i64'') (Some ''b058'')
     = Inr (Some (JStr ''127.0.0.1:63227'', ''/rpc/4300''))
   \<and> \<not> truthy (dict_get mute_descriptor ''address'')
   \<and> find_rpc (registry_of [(''/rpc/4299'', Parsed mute_descriptor), live_entry])
        (Some ''test.i64'') (Some ''b058'')
     = Inr (Some (JStr ''127.0.0.1:63227'', ''/rpc/4300''))
   \<and> find_rpc (registry_of []) (Some ''test.i64'') (Some ''b058'') = Inr None
   \<and> find_rpc (registry_of [(''/rpc/4299'', Malformed), live_entry])
        (Some ''test.i64'') (Some ''b058'') = Inl JSONDecodeError
   \<and> find_rpc (registry_of [(''/rpc/4299'', Absent), live_entry])
        (Some ''test.i64'') (Some ''b058'') = Inl FileNotFoundError"
proof -
  have r: "registry (registry_of ([] @ (''/rpc/4299'', f) # [live_entry]))
            = Some ([] @ (''/rpc/4299'', f) # [live_entry])" for f
    by (simp add: registry_of_def)
  have u: "(registry_of es)\<lparr>registry := Some es'\<rparr> = registry_of es'" for es es'
    by (simp add: registry_of_def)
  have m: "\<not> truthy (dict_get mute_descriptor ''address'')"
    by (simp add: mute_descriptor_def dict_get_def)
  have e: "find_rpc (registry_of []) (Some ''test.i64'') (Some ''b058'') = Inr None"
    by (simp add: find_rpc_def registry_of_def)
  have l: "find_rpc (registry_of [live_entry]) (Some ''test.i64'') (Some ''b058'')
            = Inr (Some (JStr ''127.0.0.1:63227'', ''/rpc/4300''))"
    by (simp add: find_rpc_def registry_of_def live_entry_def live_descriptor_def dict_get_def)
  show ?thesis
    using m e l
      find_rpc_skips_blank_descriptors
        [OF r, of "Parsed []" "Some ''test.i64''" "Some ''b058''" mute_descriptor]
      find_rpc_skips_blank_descriptors
        [OF r, of "Parsed mute_descriptor" "Some ''test.i64''" "Some ''b058''" mute_descriptor]
      find_rpc_skips_blank_descriptors
        [OF r, of Malformed "Some ''test.i64''" "Some ''b058''" mute_descriptor]
      find_rpc_skips_blank_descriptors
        [OF r, of Absent "Some ''test.i64''" "Some ''b058''" mute_descriptor]
    by (simp add: u)
qed

text \<open>
  C4, as the claim states it, fails: a file that does not parse, listed before a live
  descriptor for the request, makes \<^verbatim>\<open>find_rpc\<close> raise, where the scan of the remaining
  descriptors finds the endpoint.
\<close>

theorem find_rpc_malformed_counterexample:
  "registry broken_registry = Some [(''/rpc/4299'', Malformed), live_entry]
   \<and> find_rpc broken_registry (Some ''test.i64'') (Some ''b058'') = Inl JSONDecodeError
   \<and> find_rpc (registry_of [live_entry]) (Some ''test.i64'') (Some ''b058'')
       = Inr (Some (JStr ''127.0.0.1:63227'', ''/rpc/4300''))"
  by (simp add: broken_registry_def registry_of_def find_rpc_def live_entry_def
        live_descriptor_def dict_get_def)

section \<open>The coordinator\<close>

lemma path_name_test: "path_name ''/db/test.i64'' = ''test.i64''"
  by code_simp

lemma candidate_test: "candidate (Some ''test.i64'') ''/db/test.i64'' = ''/db/test.i64''"
  by code_simp

lemma launch_ok:
  "relaunching w \<Longrightarrow> launch_ida dead_host w g (Some ''test.i64'') (Some ''b058'') = (Inr (), g)"
  by (simp add: relaunching_def launch_ida_def search_idb_def search_history_def
        get_history_v2_def verify_db_def db_disk_def path_name_test candidate_test
        dead_host_def launches_def del: candidate.simps)

lemma poll_finds:
  "relaunching w \<Longrightarrow>
   poll_rpc dead_host (Some ''test.i64'') (Some ''b058'') 64 w
     = (Inr (Some (JStr ''127.0.0.1:63227'', ''/rpc/4300'')), sleep dead_host w)"
  by (simp add: poll_rpc_def poll_loop.simps[of _ _ _ _ w] find_rpc_def sleep_def
        dead_host_def registers_def live_entry_def live_descriptor_def dict_get_def)

lemma pass_again:
  assumes "relaunching w"
  shows "\<exists>w'. loop_body dead_host goto_request (Some ''test.i64'') (Some ''b058'') w g
                = Again w' g \<and> relaunching w'"
proof -
  have f: "find_rpc w (Some ''test.i64'') (Some ''b058'') = Inr None"
    using assms by (simp add: find_rpc_def relaunching_def)
  have c: "connect dead_host goto_request (JStr ''127.0.0.1:63227'', ''/rpc/4300'')
             (sleep dead_host w) g
           = Again (unlink ''/rpc/4300'' (sleep dead_host w)) g"
    by (simp add: connect_def goto_request_def dead_host_def refuses_def)
  have r: "relaunching (unlink ''/rpc/4300'' (sleep dead_host w))"
    using assms
    by (simp add: relaunching_def unlink_def sleep_def dead_host_def registers_def
          live_entry_def)
  show ?thesis
    using f launch_ok[OF assms] poll_finds[OF assms] c r by (simp add: loop_body_def)
qed

text \<open>
  Whatever the loop returns, it did not start beside that host in such a state: by
  induction on the computation of the partial function.
\<close>

lemma never_returns:
  assumes "run_loop e rq n h w g = Some y"
  shows "e = dead_host \<and> rq = goto_request \<and> n = Some ''test.i64'' \<and> h = Some ''b058''
           \<longrightarrow> \<not> relaunching w"
  using assms
proof (induction rule: run_loop.raw_induct[rotated 1, consumes 1])
  case (1 loop e rq n h w g y)
  show ?case
  proof (intro impI notI)
    assume a: "e = dead_host \<and> rq = goto_request \<and> n = Some ''test.i64'' \<and> h = Some ''b058''"
      and r: "relaunching w"
    from pass_again[OF r, of g] obtain w' where
      b: "loop_body dead_host goto_request (Some ''test.i64'') (Some ''b058'') w g = Again w' g"
      and r': "relaunching w'" by blast
    from 1(2) a b
    have "loop dead_host goto_request (Some ''test.i64'') (Some ''b058'') w' g = Some y"
      by simp
    from 1(1)[OF this] r' show False by simp
  qed
qed

lemma loops_forever:
  "relaunching w \<Longrightarrow>
   run_loop dead_host goto_request (Some ''test.i64'') (Some ''b058'') w g = None"
  using never_returns[of dead_host goto_request "Some ''test.i64''" "Some ''b058''" w g]
  by (cases "run_loop dead_host goto_request (Some ''test.i64'') (Some ''b058'') w g") auto

text \<open>
  C5. The claim asks for a bound on the passes of the loop and for exit code -5 once it
  is exhausted, as the module docstring ("-5 - Too many invalid endpoints") and the
  comment on the loop ("Loop a few times") do. The loop has no counter: beside a host
  that registers after every launch and whose address refuses every connection, the
  client evicts the descriptor, launches again, and \<^verbatim>\<open>start\<close> never returns.
\<close>

theorem retry_loop_never_ends: "start dead_host goto_request listed (Roots [''/db'']) = None"
proof -
  let ?locked = "listed\<lparr>lock_file := Parsed [(''4242'', (Some ''test.i64'', Some ''b058''))]\<rparr>"
  have l: "lock_search dead_host (Some ''test.i64'') (Some ''b058'') listed = (Inr (), ?locked)"
    by (simp add: lock_search_def not_exist_wait_def not_exist_wait_loop.simps
          mutate_table_def listed_def nothing_def dead_host_def)
  have r: "relaunching ?locked"
    by (simp add: relaunching_def listed_def nothing_def)
  have c: "check_lock dead_host ?locked (Some ''test.i64'') (Some ''b058'') = Inr True"
    by (simp add: check_lock_def dead_host_def)
  have t: "target goto_request = (Some ''test.i64'', Some ''b058'')"
    by (simp add: target_def goto_request_def)
  have s: "scheme goto_request = ''ida''" "query_string goto_request \<noteq> []"
    by (simp_all add: goto_request_def)
  show ?thesis
    by (simp add: start_def run_def run_locked_def l c t s loops_forever[OF r])
qed

text \<open>
  C8. The claim asks for exit code -6 when the poll times out. With the database found
  and launched and no descriptor ever written, \<^verbatim>\<open>poll_rpc\<close> returns \<^verbatim>\<open>None\<close>; building the
  message of line 580 raises NameError, the \<^verbatim>\<open>finally\<close> releases the caller's row, and
  \<^verbatim>\<open>start\<close> exits with -1.
\<close>

theorem poll_timeout_exits_minus_one:
  "fst (poll_rpc client (Some ''test.i64'') (Some ''b058'') 64 listed) = Inr None
   \<and> map_option fst (start client goto_request listed (Roots [''/db''])) = Some (- 1)
   \<and> map_option (lock_file \<circ> snd) (start client goto_request listed (Roots [''/db'']))
       = Some (Parsed [])"
  by code_simp

end
